theory Spec2Isabelle
  imports Main "HOL-Library.Sublist"
begin

section \<open>Data model of \<^verbatim>\<open>pkg/Cluster.go\<close>\<close>

text \<open>
  Go strings are byte sequences, and so is \<^typ>\<open>string\<close>. A Go \<^verbatim>\<open>error\<close> value is
  kept as its message. A panic that leaves a function is a value of \<open>panic\<close>: the
  argument of an explicit \<^verbatim>\<open>panic(err)\<close>, the run-time panic of a nil pointer
  dereference, or the panic of package \<^verbatim>\<open>flag\<close> when a flag name is defined twice.
\<close>

datatype error = Error string

datatype panic =
    PanicError error
  | NilPointerDereference
  | FlagRedefined string

text \<open>\<^verbatim>\<open>schema.GroupVersionKind\<close>, \<^verbatim>\<open>schema.GroupKind\<close>, \<^verbatim>\<open>schema.GroupVersionResource\<close>.\<close>

record GroupVersionKind =
  gvk_Group :: string
  gvk_Version :: string
  gvk_Kind :: string

record GroupKind =
  gk_Group :: string
  gk_Kind :: string

record GroupVersionResource =
  gvr_Group :: string
  gvr_Version :: string
  gvr_Resource :: string

definition GroupKind_of :: "GroupVersionKind \<Rightarrow> GroupKind" where
  "GroupKind_of gvk = \<lparr>gk_Group = gvk_Group gvk, gk_Kind = gvk_Kind gvk\<rparr>"

text \<open>\<^verbatim>\<open>meta.RESTMapping\<close>: the resource a kind resolves to, and the kind itself.\<close>

record RESTMapping =
  mapping_Resource :: GroupVersionResource
  mapping_GroupVersionKind :: GroupVersionKind

text \<open>
  \<^verbatim>\<open>unstructured.Unstructured\<close>: a generic object. \<open>obj_namespace\<close> is the string
  under \<^verbatim>\<open>metadata.namespace\<close>, empty when the object has none, which is what
  \<^verbatim>\<open>GetNamespace\<close> returns.
\<close>

record Unstructured =
  obj_apiVersion :: string
  obj_kind :: string
  obj_name :: string
  obj_namespace :: string
  obj_fields :: "(string \<times> string) list"

definition GetNamespace :: "Unstructured \<Rightarrow> string" where
  "GetNamespace obj = obj_namespace obj"

text \<open>\<^verbatim>\<open>version.Info\<close>, as returned by the discovery endpoint.\<close>

record version_Info =
  Major :: string
  Minor :: string
  GitVersion :: string

text \<open>\<^verbatim>\<open>rest.Config\<close>: the fields this file touches.\<close>

datatype WarningHandler = DefaultWarnings | NoWarnings

record rest_Config =
  Host :: string
  WarningHandler :: WarningHandler

text \<open>
  The two client interfaces are external. Each is the function from a request to the
  answer it gives: a value or an error. So every call is taken to return, and the
  cluster to give one answer to one request for the length of a fetch. The handle
  itself is one that a constructor built: the receiver and its two clients are not
  nil. \<open>disco_RESTMapping\<close> is the deferred REST
  mapper that \<^verbatim>\<open>FetchK8sObjects\<close> builds over \<^verbatim>\<open>c.disco\<close>; the dynamic interface is
  \<^verbatim>\<open>Resource(gvr).List(ctx, ListOptions{})\<close>, whose success value is the list's
  \<^verbatim>\<open>Items\<close>.
\<close>

record DiscoveryInterface =
  disco_ServerVersion :: "error + version_Info"
  disco_RESTMapping :: "GroupKind \<Rightarrow> string \<Rightarrow> error + RESTMapping"

type_synonym dynamic_Interface = "GroupVersionResource \<Rightarrow> error + Unstructured list"

record Cluster =
  resources :: "GroupVersionResource list"
  disco :: DiscoveryInterface
  restConfig :: rest_Config
  kubernetesVersion :: string
  clientset :: dynamic_Interface
  Name :: string
  Version :: string

text \<open>
  Modelled from the spec: the type \<^verbatim>\<open>Config\<close> is declared outside
  \<^verbatim>\<open>pkg/Cluster.go\<close>. The filter configuration has a kind allow-list, a kind
  deny-list, a namespace allow-list and a namespace deny-list, each of plain string
  names; the field names are the ones \<^verbatim>\<open>FetchK8sObjects\<close> reads.
\<close>

record Config =
  SelectKinds :: "string list"
  IgnoreKinds :: "string list"
  SelectNamespaces :: "string list"
  IgnoreNamespaces :: "string list"

text \<open>
  Modelled from the spec: the helper \<^verbatim>\<open>Contains\<close> is defined outside
  \<^verbatim>\<open>pkg/Cluster.go\<close>. The spec reads \<^verbatim>\<open>Contains(x, list)\<close> as "the name \<open>x\<close>
  appears in the list" of plain string names.
\<close>

definition Contains :: "string \<Rightarrow> string list \<Rightarrow> bool" where
  "Contains name names = (name \<in> set names)"

section \<open>The standard-library functions the file calls\<close>

text \<open>\<^verbatim>\<open>strings.Contains(s, substr)\<close>: \<open>substr\<close> occurs in \<open>s\<close> as a contiguous run of bytes.\<close>

definition strings_Contains :: "string \<Rightarrow> string \<Rightarrow> bool" where
  "strings_Contains s substr = sublist substr s"

text \<open>
  \<^verbatim>\<open>strings.EqualFold(s, t)\<close>: equality of the UTF-8 strings under simple Unicode
  case folding. The model is exact when \<open>t\<close> is ASCII, which is how the file calls it
  (\<open>t\<close> is the literal \<^verbatim>\<open>"bindings"\<close>). An ASCII byte of \<open>s\<close> matches the same letter in
  either case. The only runes outside ASCII that fold to an ASCII letter are
  U+017F (long s, bytes C5 BF), which folds to \<open>s\<close>, and U+212A (Kelvin sign, bytes
  E2 84 AA), which folds to \<open>k\<close>; every other rune of \<open>s\<close>, and every invalid
  byte, matches no ASCII character.
\<close>

definition ascii_lower :: "char \<Rightarrow> char" where
  "ascii_lower c =
     (case map_of (zip ''ABCDEFGHIJKLMNOPQRSTUVWXYZ'' ''abcdefghijklmnopqrstuvwxyz'') c of
        None \<Rightarrow> c
      | Some l \<Rightarrow> l)"

fun strings_EqualFold :: "string \<Rightarrow> string \<Rightarrow> bool" where
  "strings_EqualFold s [] = (s = [])"
| "strings_EqualFold [] (tc # t) = False"
| "strings_EqualFold (sc # s) (tc # t) =
     (if (of_char sc :: nat) < 128
      then ascii_lower sc = ascii_lower tc \<and> strings_EqualFold s t
      else if ascii_lower tc = CHR ''s'' \<and> sc = CHR 0xC5 \<and> take 1 s = [CHR 0xBF]
      then strings_EqualFold (drop 1 s) t
      else if ascii_lower tc = CHR ''k'' \<and> sc = CHR 0xE2 \<and> take 2 s = [CHR 0x84, CHR 0xAA]
      then strings_EqualFold (drop 2 s) t
      else False)"

text \<open>
  \<^verbatim>\<open>strings.Trim(s, cutset)\<close> for an ASCII cutset: every leading and every trailing
  byte that is in the cutset is removed.
\<close>

definition strings_Trim :: "string \<Rightarrow> string \<Rightarrow> string" where
  "strings_Trim s cutset =
     dropWhile (\<lambda>c. c \<in> set cutset) (rev (dropWhile (\<lambda>c. c \<in> set cutset) (rev s)))"

text \<open>\<^verbatim>\<open>fmt.Sprintf("%s.%s", a, b)\<close>.\<close>

definition Sprintf_s_dot_s :: "string \<Rightarrow> string \<Rightarrow> string" where
  "Sprintf_s_dot_s a b = a @ ''.'' @ b"

section \<open>\<^verbatim>\<open>ServerVersion\<close>\<close>

definition ServerVersion :: "Cluster \<Rightarrow> error + string" where
  "ServerVersion c =
     (case disco_ServerVersion (disco c) of
        Inl err \<Rightarrow> Inl err
      | Inr info \<Rightarrow> Inr (Sprintf_s_dot_s (Major info) (strings_Trim (Minor info) ''+'')))"

section \<open>\<^verbatim>\<open>FetchK8sObjects\<close>\<close>

text \<open>
  Each loop body is a chain of tests that ends in \<^verbatim>\<open>continue\<close> or in an append. The
  branch datatypes name the exit a body takes, in the order of the source.
\<close>

datatype kind_branch =
    KindIgnored
  | KindNotSelected
  | KindUnmapped error
  | KindResolved GroupVersionResource

definition kind_step :: "DiscoveryInterface \<Rightarrow> Config \<Rightarrow> GroupVersionKind \<Rightarrow> kind_branch" where
  "kind_step mapper conf gvk =
     (if Contains (gvk_Kind gvk) (IgnoreKinds conf) then KindIgnored
      else if length (SelectKinds conf) > 0 \<and> \<not> Contains (gvk_Kind gvk) (SelectKinds conf)
      then KindNotSelected
      else case disco_RESTMapping mapper (GroupKind_of gvk) (gvk_Version gvk) of
             Inl err \<Rightarrow> KindUnmapped err
           | Inr gvr \<Rightarrow> KindResolved (mapping_Resource gvr))"

text \<open>The first loop, over \<^verbatim>\<open>gvks\<close>; \<open>acc\<close> is the slice \<^verbatim>\<open>resources\<close>.\<close>

fun resolve_kinds ::
  "DiscoveryInterface \<Rightarrow> Config \<Rightarrow> GroupVersionKind list \<Rightarrow> GroupVersionResource list
     \<Rightarrow> GroupVersionResource list" where
  "resolve_kinds mapper conf [] acc = acc"
| "resolve_kinds mapper conf (gvk # gvks) acc =
     (case kind_step mapper conf gvk of
        KindResolved resource \<Rightarrow> resolve_kinds mapper conf gvks (acc @ [resource])
      | _ \<Rightarrow> resolve_kinds mapper conf gvks acc)"

datatype object_branch =
    NamespaceIgnored
  | NamespaceNotSelected
  | ObjectAppended

definition object_step :: "Config \<Rightarrow> Unstructured \<Rightarrow> object_branch" where
  "object_step conf obj =
     (let namespace = (if length (GetNamespace obj) = 0 then ''default'' else GetNamespace obj)
      in if Contains namespace (IgnoreNamespaces conf) then NamespaceIgnored
         else if length (SelectNamespaces conf) > 0 \<and> \<not> Contains namespace (SelectNamespaces conf)
         then NamespaceNotSelected
         else ObjectAppended)"

text \<open>The innermost loop, over \<^verbatim>\<open>objList.Items\<close>; \<open>acc\<close> is the slice \<^verbatim>\<open>objs\<close>.\<close>

fun filter_items :: "Config \<Rightarrow> Unstructured list \<Rightarrow> Unstructured list \<Rightarrow> Unstructured list" where
  "filter_items conf [] acc = acc"
| "filter_items conf (obj # items) acc =
     (case object_step conf obj of
        ObjectAppended \<Rightarrow> filter_items conf items (acc @ [obj])
      | _ \<Rightarrow> filter_items conf items acc)"

text \<open>
  What a fetch leaves behind: the slice \<^verbatim>\<open>objs\<close> it returns, the list calls it issued
  (in order), and the diagnostics it printed, one per failed list call.
\<close>

record fetch_state =
  objs :: "Unstructured list"
  list_calls :: "GroupVersionResource list"
  printed :: "(GroupVersionResource \<times> error) list"

definition resource_dropped :: "GroupVersionResource \<Rightarrow> bool" where
  "resource_dropped resource =
     (strings_Contains (gvr_Resource resource) ''lists''
      \<or> strings_Contains (gvr_Resource resource) ''reviews''
      \<or> strings_EqualFold (gvr_Resource resource) ''bindings'')"

text \<open>The second loop, over \<^verbatim>\<open>resources\<close>.\<close>

fun list_resources ::
  "dynamic_Interface \<Rightarrow> Config \<Rightarrow> GroupVersionResource list \<Rightarrow> fetch_state \<Rightarrow> fetch_state" where
  "list_resources client conf [] st = st"
| "list_resources client conf (resource # rest) st =
     (if resource_dropped resource then list_resources client conf rest st
      else case client resource of
             Inl err \<Rightarrow>
               list_resources client conf rest
                 (st\<lparr>list_calls := list_calls st @ [resource],
                     printed := printed st @ [(resource, err)]\<rparr>)
           | Inr items \<Rightarrow>
               list_resources client conf rest
                 (st\<lparr>list_calls := list_calls st @ [resource],
                     objs := filter_items conf items (objs st)\<rparr>))"

definition fetch_start :: fetch_state where
  "fetch_start = \<lparr>objs = [], list_calls = [], printed = []\<rparr>"

text \<open>
  \<^verbatim>\<open>conf\<close> is a pointer. It is first dereferenced in the body of the first loop, so
  a nil \<^verbatim>\<open>conf\<close> panics exactly when \<^verbatim>\<open>gvks\<close> is not empty; with no kinds both
  loops are skipped and the nil slice is returned.
\<close>

definition FetchK8sObjects ::
  "Cluster \<Rightarrow> GroupVersionKind list \<Rightarrow> Config option \<Rightarrow> panic + fetch_state" where
  "FetchK8sObjects c gvks conf =
     (case conf of
        None \<Rightarrow> (if gvks = [] then Inr fetch_start else Inl NilPointerDereference)
      | Some cf \<Rightarrow>
          Inr (list_resources (clientset c) cf (resolve_kinds (disco c) cf gvks []) fetch_start))"

section \<open>The constructors\<close>

text \<open>
  What the constructors ask of the process and of the client libraries: every
  function is external, and answers with a value or an error. \<open>filepath_Join\<close> is
  \<^verbatim>\<open>filepath.Join\<close>. \<open>GetStartingConfig\<close> takes the \<^verbatim>\<open>GlobalFile\<close> of the path
  options, \<open>ClientConfig\<close> the loaded configuration and the \<^verbatim>\<open>CurrentContext\<close>
  override (empty when there is none).
\<close>

record user_User =
  Username :: string
  HomeDir :: string

record api_Config =
  CurrentContext :: string
  Clusters :: "string list"

record environment =
  Getenv :: "string \<Rightarrow> string"
  user_Current :: "error + user_User"
  filepath_Join :: "string list \<Rightarrow> string"
  BuildConfigFromFlags :: "string \<Rightarrow> string \<Rightarrow> error + rest_Config"
  InClusterConfig :: "error + rest_Config"
  NewDiscoveryClientForConfig :: "rest_Config \<Rightarrow> error + DiscoveryInterface"
  dynamic_NewForConfig :: "rest_Config \<Rightarrow> error + dynamic_Interface"
  RecommendedHomeFile :: string
  GetStartingConfig :: "string \<Rightarrow> error + api_Config"
  ClientConfig :: "api_Config \<Rightarrow> string \<Rightarrow> error + rest_Config"

text \<open>
  What a constructor does besides returning, in order: the calls it makes to resolve
  a configuration and to build the clients, the use of the injected configuration
  (line 86), and the line it prints.
\<close>

datatype action =
    Getenv_call string
  | user_Current_call
  | flag_String_call string
  | BuildConfigFromFlags_call string string
  | use_injected_config
  | InClusterConfig_call
  | Println_call string
  | NewDiscoveryClientForConfig_call rest_Config
  | dynamic_NewForConfig_call rest_Config

text \<open>
  Lines 95 to 107, shared by the three branches: the warning handler is replaced, then
  the discovery client and the dynamic client are built from the configuration, and an
  error of either is a panic.
\<close>

definition build_clients ::
  "environment \<Rightarrow> rest_Config \<Rightarrow> (panic + Cluster) \<times> action list" where
  "build_clients env defaultRestConfig =
     (let cfg = defaultRestConfig\<lparr>WarningHandler := NoWarnings\<rparr> in
      case NewDiscoveryClientForConfig env cfg of
        Inl err \<Rightarrow> (Inl (PanicError err), [NewDiscoveryClientForConfig_call cfg])
      | Inr d \<Rightarrow>
          (case dynamic_NewForConfig env cfg of
             Inl err \<Rightarrow>
               (Inl (PanicError err),
                [NewDiscoveryClientForConfig_call cfg, dynamic_NewForConfig_call cfg])
           | Inr cs \<Rightarrow>
               (Inr \<lparr>resources = [], disco = d, restConfig = cfg, kubernetesVersion = [],
                     clientset = cs, Name = [], Version = []\<rparr>,
                [NewDiscoveryClientForConfig_call cfg, dynamic_NewForConfig_call cfg])))"

text \<open>
  \<^verbatim>\<open>NewClusterFromEnvOrConfig\<close>. \<open>flags\<close> are the names already defined in
  \<^verbatim>\<open>flag.CommandLine\<close>: \<^verbatim>\<open>flag.String\<close> panics on a name that is defined, and
  defines it otherwise. \<^verbatim>\<open>flag.Parse\<close> is not called, so \<^verbatim>\<open>*kubeconfig\<close> is the
  default path. The result is what the call returns or panics with, the flag names
  afterwards, and the actions in order.
\<close>

definition NewClusterFromEnvOrConfig ::
  "environment \<Rightarrow> string list \<Rightarrow> rest_Config option
     \<Rightarrow> (panic + Cluster) \<times> string list \<times> action list" where
  "NewClusterFromEnvOrConfig env flags restConfig' =
     (let useLocalDevMode = Getenv env ''USE_LOCAL_DEV_MODE'';
          a0 = [Getenv_call ''USE_LOCAL_DEV_MODE'']
      in
      if useLocalDevMode = ''true'' then
        (case user_Current env of
           Inl err \<Rightarrow> (Inl (PanicError err), flags, a0 @ [user_Current_call])
         | Inr usr \<Rightarrow>
             (let kubeconfig = filepath_Join env [HomeDir usr, ''.kube'', ''config''];
                  a1 = a0 @ [user_Current_call, flag_String_call ''kubeconfig'']
              in
              if ''kubeconfig'' \<in> set flags
              then (Inl (FlagRedefined ''kubeconfig''), flags, a1)
              else
                (let a2 = a1 @ [BuildConfigFromFlags_call [] kubeconfig] in
                 case BuildConfigFromFlags env [] kubeconfig of
                   Inl err \<Rightarrow> (Inl (PanicError err), ''kubeconfig'' # flags, a2)
                 | Inr cfg \<Rightarrow>
                     (case build_clients env cfg of
                        (r, a3) \<Rightarrow> (r, ''kubeconfig'' # flags, a2 @ a3)))))
      else
        (case restConfig' of
           Some cfg \<Rightarrow>
             (case build_clients env cfg of
                (r, a3) \<Rightarrow> (r, flags, a0 @ [use_injected_config] @ a3))
         | None \<Rightarrow>
             (case InClusterConfig env of
                Inl err \<Rightarrow>
                  (Inl (PanicError err), flags,
                   a0 @ [InClusterConfig_call,
                         Println_call ''error in getting rest config via InClusterConfig''])
              | Inr cfg \<Rightarrow>
                  (case build_clients env cfg of
                     (r, a3) \<Rightarrow> (r, flags, a0 @ [InClusterConfig_call] @ a3)))))"

text \<open>
  \<^verbatim>\<open>NewCluster\<close>. Line 52 writes through \<^verbatim>\<open>cluster.restConfig\<close> before line 53 looks
  at \<^verbatim>\<open>err\<close>; \<^verbatim>\<open>ClientConfig\<close> returns a nil configuration with its error, so that
  error surfaces as the nil dereference of line 52.
\<close>

definition NewCluster :: "environment \<Rightarrow> string \<Rightarrow> string \<Rightarrow> panic + Cluster" where
  "NewCluster env kubeconfig kubecontext =
     (let GlobalFile = (if length kubeconfig \<noteq> 0 then kubeconfig else RecommendedHomeFile env)
      in
      case GetStartingConfig env GlobalFile of
        Inl err \<Rightarrow> Inl (PanicError err)
      | Inr config \<Rightarrow>
          (case ClientConfig env config kubecontext of
             Inl err \<Rightarrow> Inl NilPointerDereference
           | Inr cfg \<Rightarrow> fst (build_clients env cfg)))"

text \<open>
  The three strategies of \<^verbatim>\<open>NewClusterFromEnvOrConfig\<close>, the strategy an action
  belongs to, and the strategies a run attempted: those of its actions.
\<close>

datatype strategy = LocalDev | Injected | InCluster

fun strategy_of :: "action \<Rightarrow> strategy option" where
  "strategy_of user_Current_call = Some LocalDev"
| "strategy_of (flag_String_call n) = Some LocalDev"
| "strategy_of (BuildConfigFromFlags_call m p) = Some LocalDev"
| "strategy_of use_injected_config = Some Injected"
| "strategy_of InClusterConfig_call = Some InCluster"
| "strategy_of (Getenv_call n) = None"
| "strategy_of (Println_call l) = None"
| "strategy_of (NewDiscoveryClientForConfig_call cfg) = None"
| "strategy_of (dynamic_NewForConfig_call cfg) = None"

definition attempted :: "action list \<Rightarrow> strategy list" where
  "attempted as = remdups (List.map_filter strategy_of as)"

section \<open>The filters in the words of the specification\<close>

text \<open>
  These definitions follow the specification, not the code; the lemmas below compare
  them with the loops. An object's effective namespace is \<open>default\<close> when its own is
  empty. A name is excluded by a pair of lists when it is in the deny-list, or the
  allow-list is not empty and does not have it. A resource contributes the listed
  objects that are not excluded, and nothing when it is dropped or its list call
  fails; a kind reference contributes what its resource does, and nothing when it is
  excluded or cannot be mapped.
\<close>

definition effective_namespace :: "Unstructured \<Rightarrow> string" where
  "effective_namespace obj = (if GetNamespace obj = [] then ''default'' else GetNamespace obj)"

definition namespace_excluded :: "Config \<Rightarrow> string \<Rightarrow> bool" where
  "namespace_excluded conf ns =
     (Contains ns (IgnoreNamespaces conf)
      \<or> (SelectNamespaces conf \<noteq> [] \<and> \<not> Contains ns (SelectNamespaces conf)))"

definition kind_excluded :: "Config \<Rightarrow> string \<Rightarrow> bool" where
  "kind_excluded conf k =
     (Contains k (IgnoreKinds conf)
      \<or> (SelectKinds conf \<noteq> [] \<and> \<not> Contains k (SelectKinds conf)))"

definition resource_objects :: "Cluster \<Rightarrow> Config \<Rightarrow> GroupVersionResource \<Rightarrow> Unstructured list" where
  "resource_objects c conf resource =
     (if resource_dropped resource then []
      else case clientset c resource of
             Inl err \<Rightarrow> []
           | Inr items \<Rightarrow> filter (\<lambda>obj. \<not> namespace_excluded conf (effective_namespace obj)) items)"

definition kind_objects :: "Cluster \<Rightarrow> Config \<Rightarrow> GroupVersionKind \<Rightarrow> Unstructured list" where
  "kind_objects c conf gvk =
     (if kind_excluded conf (gvk_Kind gvk) then []
      else case disco_RESTMapping (disco c) (GroupKind_of gvk) (gvk_Version gvk) of
             Inl err \<Rightarrow> []
           | Inr m \<Rightarrow> resource_objects c conf (mapping_Resource m))"

text \<open>
  Containment without regard to the case of ASCII letters, as claim C4 words the test
  on \<open>lists\<close> and \<open>reviews\<close>.
\<close>

definition contains_fold :: "string \<Rightarrow> string \<Rightarrow> bool" where
  "contains_fold s substr = strings_Contains (map ascii_lower s) (map ascii_lower substr)"

text \<open>What a list call for a resource returns: its items, and nothing when it fails.\<close>

definition listed_items :: "Cluster \<Rightarrow> GroupVersionResource \<Rightarrow> Unstructured list" where
  "listed_items c resource = (case clientset c resource of Inl err \<Rightarrow> [] | Inr items \<Rightarrow> items)"

text \<open>
  The version string as claim C7 words it: the major and the minor component joined
  by a dot, the minor component without its trailing \<open>+\<close> characters.
\<close>

definition strip_trailing_plus :: "string \<Rightarrow> string" where
  "strip_trailing_plus minor = rev (dropWhile (\<lambda>ch. ch = CHR ''+'') (rev minor))"

definition version_as_claimed :: "version_Info \<Rightarrow> string" where
  "version_as_claimed info = Major info @ ''.'' @ strip_trailing_plus (Minor info)"

text \<open>
  The strategy a call of \<^verbatim>\<open>NewClusterFromEnvOrConfig\<close> selects, in the order of the
  specification: the local development flag, then the injected configuration, then
  the in-cluster configuration. What a strategy yields: a configuration, or the panic
  that ends it.
\<close>

definition selected_strategy :: "environment \<Rightarrow> rest_Config option \<Rightarrow> strategy" where
  "selected_strategy env restConfig' =
     (if Getenv env ''USE_LOCAL_DEV_MODE'' = ''true'' then LocalDev
      else if restConfig' \<noteq> None then Injected
      else InCluster)"

fun strategy_result ::
  "environment \<Rightarrow> string list \<Rightarrow> rest_Config option \<Rightarrow> strategy \<Rightarrow> panic + rest_Config" where
  "strategy_result env flags restConfig' LocalDev =
     (case user_Current env of
        Inl err \<Rightarrow> Inl (PanicError err)
      | Inr usr \<Rightarrow>
          if ''kubeconfig'' \<in> set flags then Inl (FlagRedefined ''kubeconfig'')
          else (case BuildConfigFromFlags env [] (filepath_Join env [HomeDir usr, ''.kube'', ''config'']) of
                  Inl err \<Rightarrow> Inl (PanicError err)
                | Inr cfg \<Rightarrow> Inr cfg))"
| "strategy_result env flags restConfig' Injected =
     (case restConfig' of None \<Rightarrow> Inl NilPointerDereference | Some cfg \<Rightarrow> Inr cfg)"
| "strategy_result env flags restConfig' InCluster =
     (case InClusterConfig env of Inl err \<Rightarrow> Inl (PanicError err) | Inr cfg \<Rightarrow> Inr cfg)"

section \<open>A small cluster\<close>

text \<open>
  Concrete inputs for the instances below: kinds that map to resources, one kind
  (\<open>Gadget\<close>) with no mapping, a resource whose list call is forbidden
  (\<open>configmaps\<close>), a cluster-scoped object with an empty namespace, the resource
  \<open>bindings\<close>, and a resource whose name has \<open>Lists\<close> with a capital letter.
\<close>

definition pod_gvk :: GroupVersionKind where
  "pod_gvk = \<lparr>gvk_Group = [], gvk_Version = ''v1'', gvk_Kind = ''Pod''\<rparr>"

definition node_gvk :: GroupVersionKind where
  "node_gvk = \<lparr>gvk_Group = [], gvk_Version = ''v1'', gvk_Kind = ''Node''\<rparr>"

definition secret_gvk :: GroupVersionKind where
  "secret_gvk = \<lparr>gvk_Group = [], gvk_Version = ''v1'', gvk_Kind = ''Secret''\<rparr>"

definition configmap_gvk :: GroupVersionKind where
  "configmap_gvk = \<lparr>gvk_Group = [], gvk_Version = ''v1'', gvk_Kind = ''ConfigMap''\<rparr>"

definition binding_gvk :: GroupVersionKind where
  "binding_gvk = \<lparr>gvk_Group = [], gvk_Version = ''v1'', gvk_Kind = ''Binding''\<rparr>"

definition todolist_gvk :: GroupVersionKind where
  "todolist_gvk = \<lparr>gvk_Group = ''example.io'', gvk_Version = ''v1'', gvk_Kind = ''TodoList''\<rparr>"

definition gadget_gvk :: GroupVersionKind where
  "gadget_gvk = \<lparr>gvk_Group = ''example.io'', gvk_Version = ''v1'', gvk_Kind = ''Gadget''\<rparr>"

definition pods_gvr :: GroupVersionResource where
  "pods_gvr = \<lparr>gvr_Group = [], gvr_Version = ''v1'', gvr_Resource = ''pods''\<rparr>"

definition nodes_gvr :: GroupVersionResource where
  "nodes_gvr = \<lparr>gvr_Group = [], gvr_Version = ''v1'', gvr_Resource = ''nodes''\<rparr>"

definition secrets_gvr :: GroupVersionResource where
  "secrets_gvr = \<lparr>gvr_Group = [], gvr_Version = ''v1'', gvr_Resource = ''secrets''\<rparr>"

definition configmaps_gvr :: GroupVersionResource where
  "configmaps_gvr = \<lparr>gvr_Group = [], gvr_Version = ''v1'', gvr_Resource = ''configmaps''\<rparr>"

definition bindings_gvr :: GroupVersionResource where
  "bindings_gvr = \<lparr>gvr_Group = [], gvr_Version = ''v1'', gvr_Resource = ''bindings''\<rparr>"

definition todolists_gvr :: GroupVersionResource where
  "todolists_gvr = \<lparr>gvr_Group = ''example.io'', gvr_Version = ''v1'', gvr_Resource = ''TodoLists''\<rparr>"

definition pod_prod :: Unstructured where
  "pod_prod = \<lparr>obj_apiVersion = ''v1'', obj_kind = ''Pod'', obj_name = ''web'',
                obj_namespace = ''prod'', obj_fields = []\<rparr>"

definition pod_staging :: Unstructured where
  "pod_staging = \<lparr>obj_apiVersion = ''v1'', obj_kind = ''Pod'', obj_name = ''web'',
                   obj_namespace = ''staging'', obj_fields = []\<rparr>"

definition node_one :: Unstructured where
  "node_one = \<lparr>obj_apiVersion = ''v1'', obj_kind = ''Node'', obj_name = ''node-1'',
                obj_namespace = [], obj_fields = []\<rparr>"

definition secret_prod :: Unstructured where
  "secret_prod = \<lparr>obj_apiVersion = ''v1'', obj_kind = ''Secret'', obj_name = ''token'',
                   obj_namespace = ''prod'', obj_fields = []\<rparr>"

definition binding_prod :: Unstructured where
  "binding_prod = \<lparr>obj_apiVersion = ''v1'', obj_kind = ''Binding'', obj_name = ''web'',
                    obj_namespace = ''prod'', obj_fields = []\<rparr>"

definition todo_prod :: Unstructured where
  "todo_prod = \<lparr>obj_apiVersion = ''example.io/v1'', obj_kind = ''TodoList'', obj_name = ''chores'',
                 obj_namespace = ''prod'', obj_fields = []\<rparr>"

definition example_mapper :: "GroupKind \<Rightarrow> string \<Rightarrow> error + RESTMapping" where
  "example_mapper gk v =
     (if gk_Kind gk = ''Pod'' then Inr \<lparr>mapping_Resource = pods_gvr, mapping_GroupVersionKind = pod_gvk\<rparr>
      else if gk_Kind gk = ''Node'' then Inr \<lparr>mapping_Resource = nodes_gvr, mapping_GroupVersionKind = node_gvk\<rparr>
      else if gk_Kind gk = ''Secret'' then Inr \<lparr>mapping_Resource = secrets_gvr, mapping_GroupVersionKind = secret_gvk\<rparr>
      else if gk_Kind gk = ''ConfigMap'' then Inr \<lparr>mapping_Resource = configmaps_gvr, mapping_GroupVersionKind = configmap_gvk\<rparr>
      else if gk_Kind gk = ''Binding'' then Inr \<lparr>mapping_Resource = bindings_gvr, mapping_GroupVersionKind = binding_gvk\<rparr>
      else if gk_Kind gk = ''TodoList'' then Inr \<lparr>mapping_Resource = todolists_gvr, mapping_GroupVersionKind = todolist_gvk\<rparr>
      else Inl (Error ''no matches for kind''))"

definition example_client :: dynamic_Interface where
  "example_client resource =
     (if gvr_Resource resource = ''pods'' then Inr [pod_prod, pod_staging]
      else if gvr_Resource resource = ''nodes'' then Inr [node_one]
      else if gvr_Resource resource = ''secrets'' then Inr [secret_prod]
      else if gvr_Resource resource = ''configmaps'' then Inl (Error ''forbidden'')
      else if gvr_Resource resource = ''bindings'' then Inr [binding_prod]
      else if gvr_Resource resource = ''TodoLists'' then Inr [todo_prod]
      else Inl (Error ''not found''))"

definition example_cluster :: "error + version_Info \<Rightarrow> Cluster" where
  "example_cluster v =
     \<lparr>resources = [],
      disco = \<lparr>disco_ServerVersion = v, disco_RESTMapping = example_mapper\<rparr>,
      restConfig = \<lparr>Host = ''https://10.0.0.1'', WarningHandler = NoWarnings\<rparr>,
      kubernetesVersion = [], clientset = example_client, Name = [], Version = []\<rparr>"

definition version_1_28 :: "error + version_Info" where
  "version_1_28 = Inr \<lparr>Major = ''1'', Minor = ''28+'', GitVersion = ''v1.28.3-gke''\<rparr>"

definition no_filters :: Config where
  "no_filters = \<lparr>SelectKinds = [], IgnoreKinds = [], SelectNamespaces = [], IgnoreNamespaces = []\<rparr>"

definition prod_only :: Config where
  "prod_only = \<lparr>SelectKinds = [], IgnoreKinds = [], SelectNamespaces = [''prod''], IgnoreNamespaces = []\<rparr>"

definition deny_secret :: Config where
  "deny_secret = \<lparr>SelectKinds = [], IgnoreKinds = [''Secret''], SelectNamespaces = [], IgnoreNamespaces = []\<rparr>"

definition select_pod :: Config where
  "select_pod = \<lparr>SelectKinds = [''Pod''], IgnoreKinds = [], SelectNamespaces = [], IgnoreNamespaces = []\<rparr>"

definition both_lists :: Config where
  "both_lists = \<lparr>SelectKinds = [''Pod'', ''Secret''], IgnoreKinds = [''Secret'', ''Node''],
                  SelectNamespaces = [''prod'', ''staging''],
                  IgnoreNamespaces = [''prod'', ''default'']\<rparr>"

definition info_plus_28 :: version_Info where
  "info_plus_28 = \<lparr>Major = ''1'', Minor = ''+28'', GitVersion = ''v1.28.3''\<rparr>"

definition info_1_28 :: version_Info where
  "info_1_28 = \<lparr>Major = ''1'', Minor = ''28+'', GitVersion = ''v1.28.3-gke''\<rparr>"

text \<open>
  A process environment: the home directory has a kubeconfig file, there is no
  in-cluster configuration, and both clients can be built.
\<close>

definition dev_config :: rest_Config where
  "dev_config = \<lparr>Host = ''https://dev.example:6443'', WarningHandler = DefaultWarnings\<rparr>"

definition injected_config :: rest_Config where
  "injected_config = \<lparr>Host = ''https://10.0.0.1'', WarningHandler = DefaultWarnings\<rparr>"

definition example_disco :: DiscoveryInterface where
  "example_disco = \<lparr>disco_ServerVersion = version_1_28, disco_RESTMapping = example_mapper\<rparr>"

definition example_env :: "string \<Rightarrow> environment" where
  "example_env mode =
     \<lparr>Getenv = (\<lambda>name. if name = ''USE_LOCAL_DEV_MODE'' then mode else []),
      user_Current = Inr \<lparr>Username = ''dev'', HomeDir = ''/home/dev''\<rparr>,
      filepath_Join = (\<lambda>parts. case parts of [] \<Rightarrow> [] | p # ps \<Rightarrow> foldl (\<lambda>a b. a @ ''/'' @ b) p ps),
      BuildConfigFromFlags =
        (\<lambda>masterUrl path. if path = ''/home/dev/.kube/config'' then Inr dev_config
                           else Inl (Error ''no such file'')),
      InClusterConfig = Inl (Error ''not running in a cluster''),
      NewDiscoveryClientForConfig = (\<lambda>cfg. Inr example_disco),
      dynamic_NewForConfig = (\<lambda>cfg. Inr example_client),
      RecommendedHomeFile = ''/home/dev/.kube/config'',
      GetStartingConfig = (\<lambda>file. Inr \<lparr>CurrentContext = ''dev'', Clusters = [''dev'']\<rparr>),
      ClientConfig = (\<lambda>config context. Inr dev_config)\<rparr>"

section \<open>Properties of the loops\<close>

lemmas example_defs =
  pod_gvk_def node_gvk_def secret_gvk_def configmap_gvk_def binding_gvk_def todolist_gvk_def
  gadget_gvk_def
  pods_gvr_def nodes_gvr_def secrets_gvr_def configmaps_gvr_def bindings_gvr_def todolists_gvr_def
  pod_prod_def pod_staging_def node_one_def secret_prod_def binding_prod_def todo_prod_def
  example_mapper_def example_client_def example_cluster_def version_1_28_def
  no_filters_def prod_only_def deny_secret_def select_pod_def both_lists_def

lemmas constructor_defs =
  NewClusterFromEnvOrConfig_def build_clients_def example_env_def dev_config_def
  injected_config_def example_disco_def Let_def

lemmas run_defs =
  FetchK8sObjects_def fetch_start_def kind_step_def object_step_def resource_dropped_def
  Contains_def GroupKind_of_def GetNamespace_def strings_Contains_def sublist_code
  ascii_lower_def Let_def


text \<open>
  \<^verbatim>\<open>strings.EqualFold\<close> accepts any mix of cases and the long s, and nothing longer;
  \<^verbatim>\<open>strings.Contains\<close> is sensitive to case.
\<close>

lemma strings_EqualFold_examples:
  "strings_EqualFold ''BinDings'' ''bindings''"
  "strings_EqualFold (''binding'' @ [CHR 0xC5, CHR 0xBF]) ''bindings''"
  "\<not> strings_EqualFold ''rolebindings'' ''bindings''"
  by (simp_all add: ascii_lower_def)

lemma strings_Contains_examples:
  "strings_Contains ''podlists'' ''lists''"
  "strings_Contains ''tokenreviews'' ''reviews''"
  "\<not> strings_Contains ''TodoLists'' ''lists''"
  by (simp_all add: strings_Contains_def sublist_code)

lemma object_step_appended:
  "object_step conf obj = ObjectAppended \<longleftrightarrow> \<not> namespace_excluded conf (effective_namespace obj)"
  by (simp add: object_step_def namespace_excluded_def effective_namespace_def Let_def)

lemma kind_step_resolved:
  "kind_step mapper conf gvk = KindResolved r \<longleftrightarrow>
     \<not> kind_excluded conf (gvk_Kind gvk) \<and>
     (\<exists>m. disco_RESTMapping mapper (GroupKind_of gvk) (gvk_Version gvk) = Inr m \<and> mapping_Resource m = r)"
  by (auto simp: kind_step_def kind_excluded_def split: sum.splits)

lemma resolve_kinds_acc:
  "resolve_kinds mapper conf gvks acc =
     acc @ concat (map (\<lambda>gvk. case kind_step mapper conf gvk of KindResolved r \<Rightarrow> [r] | _ \<Rightarrow> []) gvks)"
  by (induction gvks arbitrary: acc) (auto split: kind_branch.splits)

lemma filter_items_acc:
  "filter_items conf items acc = acc @ filter (\<lambda>obj. object_step conf obj = ObjectAppended) items"
  by (induction items arbitrary: acc) (auto split: object_branch.splits)

lemma list_resources_objs:
  "objs (list_resources (clientset c) conf rs st) = objs st @ concat (map (resource_objects c conf) rs)"
  by (induction rs arbitrary: st)
     (auto simp: resource_objects_def filter_items_acc object_step_appended split: sum.splits)

lemma list_resources_calls:
  "list_calls (list_resources client conf rs st) = list_calls st @ filter (\<lambda>r. \<not> resource_dropped r) rs"
  by (induction rs arbitrary: st) (auto split: sum.splits)

lemma list_resources_objs_calls:
  "objs (list_resources (clientset c) conf rs st) =
     objs st @ concat (map (\<lambda>r. filter (\<lambda>obj. \<not> namespace_excluded conf (effective_namespace obj)) (listed_items c r))
                        (filter (\<lambda>r. \<not> resource_dropped r) rs))"
  by (induction rs arbitrary: st)
     (auto simp: listed_items_def filter_items_acc object_step_appended split: sum.splits)

lemma resolve_kinds_filter:
  assumes "\<And>gvk. gvk \<in> set gvks \<Longrightarrow> \<not> P gvk \<Longrightarrow> kind_excluded conf (gvk_Kind gvk)"
  shows "resolve_kinds mapper conf (filter P gvks) acc = resolve_kinds mapper conf gvks acc"
  using assms
proof (induction gvks arbitrary: acc)
  case Nil
  then show ?case by simp
next
  case (Cons g gs)
  show ?case
  proof (cases "P g")
    case True
    with Cons show ?thesis by (simp split: kind_branch.splits)
  next
    case False
    with Cons.prems have "kind_excluded conf (gvk_Kind g)" by simp
    then have "\<And>r. kind_step mapper conf g \<noteq> KindResolved r"
      by (simp add: kind_step_resolved)
    with False Cons show ?thesis by (simp split: kind_branch.splits)
  qed
qed

lemma FetchK8sObjects_Some:
  "FetchK8sObjects c gvks (Some conf) =
     Inr (list_resources (clientset c) conf (resolve_kinds (disco c) conf gvks []) fetch_start)"
  by (simp add: FetchK8sObjects_def)

lemma resolved_objects:
  "concat (map (resource_objects c conf)
     (concat (map (\<lambda>gvk. case kind_step (disco c) conf gvk of KindResolved r \<Rightarrow> [r] | _ \<Rightarrow> []) gvks)))
   = concat (map (kind_objects c conf) gvks)"
  by (induction gvks)
     (auto simp: kind_objects_def kind_step_def kind_excluded_def split: sum.splits)

lemma FetchK8sObjects_objs:
  "FetchK8sObjects c gvks (Some conf) = Inr st \<Longrightarrow> objs st = concat (map (kind_objects c conf) gvks)"
  by (auto simp: FetchK8sObjects_Some list_resources_objs resolve_kinds_acc resolved_objects fetch_start_def)

lemma FetchK8sObjects_objs_calls:
  "FetchK8sObjects c gvks (Some conf) = Inr st \<Longrightarrow>
     objs st = concat (map (\<lambda>r. filter (\<lambda>obj. \<not> namespace_excluded conf (effective_namespace obj)) (listed_items c r)) (list_calls st))"
  by (auto simp: FetchK8sObjects_Some list_resources_objs_calls list_resources_calls fetch_start_def)

lemma FetchK8sObjects_calls_not_dropped:
  "FetchK8sObjects c gvks (Some conf) = Inr st \<Longrightarrow> r \<in> set (list_calls st) \<Longrightarrow> \<not> resource_dropped r"
  by (auto simp: FetchK8sObjects_Some list_resources_calls fetch_start_def)


lemma list_resources_printed:
  "printed (list_resources client conf rs st) =
     printed st @ concat (map (\<lambda>r. case client r of Inl err \<Rightarrow> [(r, err)] | Inr items \<Rightarrow> [])
                              (filter (\<lambda>r. \<not> resource_dropped r) rs))"
  by (induction rs arbitrary: st) (auto split: sum.splits)

lemma FetchK8sObjects_printed:
  "FetchK8sObjects c gvks (Some conf) = Inr st \<Longrightarrow>
     printed st = concat (map (\<lambda>r. case clientset c r of Inl err \<Rightarrow> [(r, err)] | Inr items \<Rightarrow> [])
                              (list_calls st))"
  by (auto simp: FetchK8sObjects_Some list_resources_printed list_resources_calls fetch_start_def)

lemma FetchK8sObjects_filter:
  assumes "\<And>gvk. gvk \<in> set gvks \<Longrightarrow> \<not> P gvk \<Longrightarrow> kind_excluded conf (gvk_Kind gvk)"
  shows "FetchK8sObjects c (filter P gvks) (Some conf) = FetchK8sObjects c gvks (Some conf)"
  using assms by (simp add: FetchK8sObjects_Some resolve_kinds_filter)

lemma kind_objects_filter:
  assumes "\<And>gvk. gvk \<in> set gvks \<Longrightarrow> \<not> P gvk \<Longrightarrow> kind_excluded conf (gvk_Kind gvk)"
  shows "concat (map (kind_objects c conf) (filter P gvks)) = concat (map (kind_objects c conf) gvks)"
  using assms by (induction gvks) (auto simp: kind_objects_def)

lemma resolve_kinds_cong:
  assumes "\<And>gvk. gvk \<in> set gvks \<Longrightarrow> kind_step mapper conf gvk = kind_step mapper conf' gvk"
  shows "resolve_kinds mapper conf gvks acc = resolve_kinds mapper conf' gvks acc"
  using assms by (induction gvks arbitrary: acc) (simp_all split: kind_branch.splits)

lemma object_step_SelectKinds:
  "object_step (conf\<lparr>SelectKinds := ks\<rparr>) obj = object_step conf obj"
  by (simp add: object_step_def Let_def)

lemma filter_items_SelectKinds:
  "filter_items (conf\<lparr>SelectKinds := ks\<rparr>) items acc = filter_items conf items acc"
  by (simp add: filter_items_acc object_step_SelectKinds)

lemma list_resources_SelectKinds:
  "list_resources client (conf\<lparr>SelectKinds := ks\<rparr>) rs st = list_resources client conf rs st"
  by (induction rs arbitrary: st) (simp_all add: filter_items_SelectKinds split: sum.splits)

lemma list_resources_other_client:
  assumes "resource_dropped resource"
  shows "list_resources (client(resource := answer)) conf rs st = list_resources client conf rs st"
  using assms by (induction rs arbitrary: st) (auto split: sum.splits)

text \<open>
  A nil \<^verbatim>\<open>conf\<close> is no filter configuration: the fetch panics on it as soon as there
  is a kind to look at.
\<close>

lemma FetchK8sObjects_nil_conf:
  "FetchK8sObjects c gvks None = (if gvks = [] then Inr fetch_start else Inl NilPointerDereference)"
  by (simp add: FetchK8sObjects_def)

section \<open>Properties of the version string and of the constructors\<close>

lemma strings_Trim_plus:
  "strings_Trim minor ''+'' = dropWhile (\<lambda>ch. ch = CHR ''+'') (strip_trailing_plus minor)"
  by (simp add: strings_Trim_def strip_trailing_plus_def)

lemma strip_trailing_plus_hd:
  "take 1 minor \<noteq> ''+'' \<Longrightarrow> dropWhile (\<lambda>ch. ch = CHR ''+'') (strip_trailing_plus minor) = strip_trailing_plus minor"
proof (cases minor)
  case Nil
  then show ?thesis by (simp add: strip_trailing_plus_def)
next
  case (Cons a as)
  assume "take 1 minor \<noteq> ''+''"
  with Cons have a: "a \<noteq> CHR ''+''" by simp
  then have "\<exists>zs. strip_trailing_plus (a # as) = a # zs"
    by (auto simp: strip_trailing_plus_def dropWhile_append intro: exI [of _ "rev (dropWhile (\<lambda>ch. ch = CHR ''+'') (rev as))"])
  then obtain zs where "strip_trailing_plus minor = a # zs"
    using Cons by blast
  with a show ?thesis by simp
qed

lemma map_filter_append:
  "List.map_filter f (xs @ ys) = List.map_filter f xs @ List.map_filter f ys"
  by (simp add: List.map_filter_def)

lemma build_clients_strategies:
  "build_clients env cfg = (r, as) \<Longrightarrow> List.map_filter strategy_of as = []"
  by (auto simp: build_clients_def Let_def List.map_filter_simps split: sum.splits)

lemma build_clients_Inr:
  "fst (build_clients env cfg) = Inr cl \<Longrightarrow>
     restConfig cl = cfg\<lparr>WarningHandler := NoWarnings\<rparr>
     \<and> NewDiscoveryClientForConfig env (restConfig cl) = Inr (disco cl)
     \<and> dynamic_NewForConfig env (restConfig cl) = Inr (clientset cl)"
  by (auto simp: build_clients_def Let_def split: sum.splits)

lemma NewClusterFromEnvOrConfig_attempted:
  "NewClusterFromEnvOrConfig env flags rc = (res, flags', as) \<Longrightarrow>
     attempted as = [selected_strategy env rc]"
  by (auto simp: NewClusterFromEnvOrConfig_def selected_strategy_def Let_def
      attempted_def List.map_filter_simps map_filter_append build_clients_strategies
      split: sum.splits if_splits option.splits prod.splits)

lemma NewClusterFromEnvOrConfig_result:
  "NewClusterFromEnvOrConfig env flags rc = (res, flags', as) \<Longrightarrow>
     res = (case strategy_result env flags rc (selected_strategy env rc) of
              Inl p \<Rightarrow> Inl p
            | Inr cfg \<Rightarrow> fst (build_clients env cfg))"
  by (auto simp: NewClusterFromEnvOrConfig_def selected_strategy_def Let_def
      split: sum.splits if_splits option.splits prod.splits)

text \<open>
  \<^verbatim>\<open>NewCluster\<close> returns a handle only when every step succeeded; any failure is a
  panic.
\<close>

lemma NewCluster_Inr:
  "NewCluster env kubeconfig kubecontext = Inr cl \<Longrightarrow>
     (\<exists>config cfg.
        GetStartingConfig env (if kubeconfig = [] then RecommendedHomeFile env else kubeconfig) = Inr config
        \<and> ClientConfig env config kubecontext = Inr cfg
        \<and> restConfig cl = cfg\<lparr>WarningHandler := NoWarnings\<rparr>
        \<and> NewDiscoveryClientForConfig env (restConfig cl) = Inr (disco cl)
        \<and> dynamic_NewForConfig env (restConfig cl) = Inr (clientset cl))"
  by (auto simp: NewCluster_def Let_def split: sum.splits if_splits dest: build_clients_Inr)

section \<open>The namespace filter\<close>

text \<open>
  Claim C6. Take an object returned by a list call that a fetch issued, and let its
  effective namespace be \<open>default\<close> when its own namespace is empty and its own
  namespace otherwise. The object is missing from the result exactly when the
  effective namespace is in the namespace deny-list, or the namespace allow-list is
  not empty and does not contain it.
\<close>

theorem namespace_filter_exact:
  assumes "FetchK8sObjects c gvks (Some conf) = Inr st"
    and "resource \<in> set (list_calls st)"
    and "obj \<in> set (listed_items c resource)"
  shows "obj \<notin> set (objs st) \<longleftrightarrow>
           Contains (effective_namespace obj) (IgnoreNamespaces conf)
           \<or> (SelectNamespaces conf \<noteq> [] \<and> \<not> Contains (effective_namespace obj) (SelectNamespaces conf))"
proof -
  from assms(1) have eq: "set (objs st) =
      (\<Union>r \<in> set (list_calls st). {o' \<in> set (listed_items c r). \<not> namespace_excluded conf (effective_namespace o')})"
    by (simp add: FetchK8sObjects_objs_calls)
  from assms(2,3) have "obj \<in> set (objs st) \<longleftrightarrow> \<not> namespace_excluded conf (effective_namespace obj)"
    unfolding eq by blast
  then show ?thesis by (simp add: namespace_excluded_def)
qed

theorem namespace_filter_exact_witness:
  "FetchK8sObjects (example_cluster version_1_28) [pod_gvk] (Some prod_only) =
     Inr \<lparr>objs = [pod_prod], list_calls = [pods_gvr], printed = []\<rparr>
   \<and> pod_staging \<in> set (listed_items (example_cluster version_1_28) pods_gvr)
   \<and> pod_staging \<notin> set [pod_prod]
   \<and> \<not> Contains (effective_namespace pod_staging) (SelectNamespaces prod_only)"
proof -
  let ?st = "\<lparr>objs = [pod_prod], list_calls = [pods_gvr], printed = []\<rparr>"
  have run: "FetchK8sObjects (example_cluster version_1_28) [pod_gvk] (Some prod_only) = Inr ?st"
    by (simp add: example_defs run_defs)
  have called: "pods_gvr \<in> set (list_calls ?st)"
    by simp
  have listed: "pod_staging \<in> set (listed_items (example_cluster version_1_28) pods_gvr)"
    by (simp add: listed_items_def example_defs)
  have absent: "pod_staging \<notin> set (objs ?st)"
    by (simp add: example_defs)
  have allowed: "\<not> Contains (effective_namespace pod_staging) (IgnoreNamespaces prod_only)"
    by (simp add: example_defs Contains_def)
  from namespace_filter_exact [OF run called listed] absent allowed
  have "\<not> Contains (effective_namespace pod_staging) (SelectNamespaces prod_only)"
    by blast
  with run listed absent show ?thesis by simp
qed


section \<open>What the result holds\<close>

text \<open>
  Claim C9. Every object in the result of a fetch is an object of a list call the
  fetch issued, as the call returned it: the result is the listings, in the order of
  the calls, with the filtered objects left out and nothing else changed. In
  particular an object whose namespace is empty in the listing, and that the filters
  keep, is in the result with its namespace still empty; \<open>default\<close> is used only to
  evaluate the filters.
\<close>

theorem returned_objects_unmodified:
  assumes "FetchK8sObjects c gvks (Some conf) = Inr st"
  shows "objs st =
           concat (map (\<lambda>r. filter (\<lambda>obj. object_step conf obj = ObjectAppended) (listed_items c r))
                       (list_calls st))
         \<and> (\<forall>obj \<in> set (objs st). \<exists>r \<in> set (list_calls st). obj \<in> set (listed_items c r))
         \<and> (\<forall>r \<in> set (list_calls st). \<forall>obj \<in> set (listed_items c r).
              GetNamespace obj = [] \<and> object_step conf obj = ObjectAppended
                \<longrightarrow> (\<exists>obj' \<in> set (objs st). obj' = obj \<and> GetNamespace obj' = []))"
proof -
  have eq: "objs st =
      concat (map (\<lambda>r. filter (\<lambda>obj. object_step conf obj = ObjectAppended) (listed_items c r))
                  (list_calls st))"
    using FetchK8sObjects_objs_calls [OF assms] by (simp add: object_step_appended)
  have sub: "\<forall>obj \<in> set (objs st). \<exists>r \<in> set (list_calls st). obj \<in> set (listed_items c r)"
    unfolding eq by auto
  have keep: "\<forall>r \<in> set (list_calls st). \<forall>obj \<in> set (listed_items c r).
      GetNamespace obj = [] \<and> object_step conf obj = ObjectAppended
        \<longrightarrow> (\<exists>obj' \<in> set (objs st). obj' = obj \<and> GetNamespace obj' = [])"
    unfolding eq by auto
  from eq sub keep show ?thesis by blast
qed

theorem returned_objects_unmodified_witness:
  "FetchK8sObjects (example_cluster version_1_28) [pod_gvk, node_gvk] (Some no_filters) =
     Inr \<lparr>objs = [pod_prod, pod_staging, node_one], list_calls = [pods_gvr, nodes_gvr], printed = []\<rparr>
   \<and> listed_items (example_cluster version_1_28) nodes_gvr = [node_one]
   \<and> GetNamespace node_one = []
   \<and> object_step no_filters node_one = ObjectAppended
   \<and> (\<exists>obj' \<in> set [pod_prod, pod_staging, node_one]. obj' = node_one \<and> GetNamespace obj' = [])"
proof -
  let ?st = "\<lparr>objs = [pod_prod, pod_staging, node_one], list_calls = [pods_gvr, nodes_gvr], printed = []\<rparr>"
  have run: "FetchK8sObjects (example_cluster version_1_28) [pod_gvk, node_gvk] (Some no_filters) = Inr ?st"
    by (simp add: example_defs run_defs)
  have listed: "listed_items (example_cluster version_1_28) nodes_gvr = [node_one]"
    by (simp add: listed_items_def example_defs)
  have empty: "GetNamespace node_one = []"
    by (simp add: GetNamespace_def node_one_def)
  have kept: "object_step no_filters node_one = ObjectAppended"
    by (simp add: example_defs run_defs)
  have "\<forall>r \<in> set (list_calls ?st). \<forall>obj \<in> set (listed_items (example_cluster version_1_28) r).
      GetNamespace obj = [] \<and> object_step no_filters obj = ObjectAppended
        \<longrightarrow> (\<exists>obj' \<in> set (objs ?st). obj' = obj \<and> GetNamespace obj' = [])"
    using returned_objects_unmodified [OF run] by blast
  then have "\<exists>obj' \<in> set (objs ?st). obj' = node_one \<and> GetNamespace obj' = []"
    using listed empty kept by simp
  with run listed empty kept show ?thesis by simp
qed

text \<open>
  Claim C1 as stated fails: the node of the small cluster has an empty namespace, the
  filters keep it, and its entry in the result reports the empty namespace, not
  \<open>default\<close>.
\<close>

theorem empty_namespace_counterexample:
  "FetchK8sObjects (example_cluster version_1_28) [node_gvk] (Some no_filters) =
     Inr \<lparr>objs = [node_one], list_calls = [nodes_gvr], printed = []\<rparr>
   \<and> listed_items (example_cluster version_1_28) nodes_gvr = [node_one]
   \<and> GetNamespace node_one = []
   \<and> map GetNamespace [node_one] \<noteq> [''default'']"
  by (simp add: example_defs run_defs listed_items_def)

text \<open>
  Claim C1, amended. The objects of the result whose namespace is empty are the
  objects of the listings whose namespace is empty, unchanged, when \<open>default\<close> passes
  the namespace filters, and there is none when \<open>default\<close> is denied or a non-empty
  allow-list lacks it: an empty namespace is filtered as \<open>default\<close> and reported as
  empty.
\<close>

theorem empty_namespace_filtered_as_default:
  assumes "FetchK8sObjects c gvks (Some conf) = Inr st"
  shows "filter (\<lambda>obj. GetNamespace obj = []) (objs st) =
           (if Contains ''default'' (IgnoreNamespaces conf)
               \<or> (SelectNamespaces conf \<noteq> [] \<and> \<not> Contains ''default'' (SelectNamespaces conf))
            then []
            else concat (map (\<lambda>r. filter (\<lambda>obj. GetNamespace obj = []) (listed_items c r))
                             (list_calls st)))"
proof -
  have one: "filter (\<lambda>obj. GetNamespace obj = [])
               (filter (\<lambda>obj. \<not> namespace_excluded conf (effective_namespace obj)) xs) =
             (if namespace_excluded conf ''default'' then []
              else filter (\<lambda>obj. GetNamespace obj = []) xs)" for xs
    by (induction xs) (auto simp: effective_namespace_def)
  have "filter (\<lambda>obj. GetNamespace obj = []) (objs st) =
          concat (map (\<lambda>r. filter (\<lambda>obj. GetNamespace obj = [])
                 (filter (\<lambda>obj. \<not> namespace_excluded conf (effective_namespace obj)) (listed_items c r)))
                 (list_calls st))"
    unfolding FetchK8sObjects_objs_calls [OF assms] by (simp add: filter_concat comp_def)
  also have "\<dots> = (if namespace_excluded conf ''default'' then []
       else concat (map (\<lambda>r. filter (\<lambda>obj. GetNamespace obj = []) (listed_items c r)) (list_calls st)))"
    unfolding one by simp
  finally show ?thesis by (simp add: namespace_excluded_def)
qed

theorem empty_namespace_filtered_as_default_witness:
  "FetchK8sObjects (example_cluster version_1_28) [pod_gvk, node_gvk] (Some no_filters) =
     Inr \<lparr>objs = [pod_prod, pod_staging, node_one], list_calls = [pods_gvr, nodes_gvr], printed = []\<rparr>
   \<and> filter (\<lambda>obj. GetNamespace obj = []) [pod_prod, pod_staging, node_one] =
       concat (map (\<lambda>r. filter (\<lambda>obj. GetNamespace obj = []) (listed_items (example_cluster version_1_28) r))
                   [pods_gvr, nodes_gvr])
   \<and> filter (\<lambda>obj. GetNamespace obj = []) [pod_prod, pod_staging, node_one] = [node_one]"
proof -
  let ?st = "\<lparr>objs = [pod_prod, pod_staging, node_one], list_calls = [pods_gvr, nodes_gvr], printed = []\<rparr>"
  have run: "FetchK8sObjects (example_cluster version_1_28) [pod_gvk, node_gvk] (Some no_filters) = Inr ?st"
    by (simp add: example_defs run_defs)
  have pass: "\<not> (Contains ''default'' (IgnoreNamespaces no_filters)
      \<or> (SelectNamespaces no_filters \<noteq> [] \<and> \<not> Contains ''default'' (SelectNamespaces no_filters)))"
    by (simp add: no_filters_def Contains_def)
  have inst: "filter (\<lambda>obj. GetNamespace obj = []) (objs ?st) =
      concat (map (\<lambda>r. filter (\<lambda>obj. GetNamespace obj = []) (listed_items (example_cluster version_1_28) r))
                  (list_calls ?st))"
    using empty_namespace_filtered_as_default [OF run] pass by simp
  have val: "filter (\<lambda>obj. GetNamespace obj = []) [pod_prod, pod_staging, node_one] = [node_one]"
    by (simp add: GetNamespace_def pod_prod_def pod_staging_def node_one_def)
  from run inst val show ?thesis by simp
qed

section \<open>Errors of one kind or resource\<close>

text \<open>
  Claim C2. For every list of kind references and every filter configuration the
  fetch returns normally, with no panic. Its result is the concatenation, in the order
  of the kind references, of what each reference contributes by itself: nothing when
  its REST mapping fails or the list call of its resource returns an error, and all
  the surviving objects of its resource otherwise. So a failure skips only the kind or
  resource it belongs to. Each failed list call prints one diagnostic.
\<close>

theorem fetch_tolerates_errors:
  "\<exists>st. FetchK8sObjects c gvks (Some conf) = Inr st
        \<and> objs st = concat (map (kind_objects c conf) gvks)
        \<and> printed st =
            concat (map (\<lambda>r. case clientset c r of Inl err \<Rightarrow> [(r, err)] | Inr items \<Rightarrow> [])
                        (list_calls st))"
proof -
  obtain st where st: "FetchK8sObjects c gvks (Some conf) = Inr st"
    by (simp add: FetchK8sObjects_Some)
  from st FetchK8sObjects_objs [OF st] FetchK8sObjects_printed [OF st] show ?thesis
    by blast
qed

theorem fetch_tolerates_errors_witness:
  "FetchK8sObjects (example_cluster version_1_28) [gadget_gvk, pod_gvk, configmap_gvk, node_gvk]
       (Some no_filters) =
     Inr \<lparr>objs = [pod_prod, pod_staging, node_one],
          list_calls = [pods_gvr, configmaps_gvr, nodes_gvr],
          printed = [(configmaps_gvr, Error ''forbidden'')]\<rparr>
   \<and> concat (map (kind_objects (example_cluster version_1_28) no_filters)
               [gadget_gvk, pod_gvk, configmap_gvk, node_gvk]) = [pod_prod, pod_staging, node_one]"
proof -
  let ?st = "\<lparr>objs = [pod_prod, pod_staging, node_one],
          list_calls = [pods_gvr, configmaps_gvr, nodes_gvr],
          printed = [(configmaps_gvr, Error ''forbidden'')]\<rparr>"
  have run: "FetchK8sObjects (example_cluster version_1_28)
       [gadget_gvk, pod_gvk, configmap_gvk, node_gvk] (Some no_filters) = Inr ?st"
    by (simp add: example_defs run_defs)
  from fetch_tolerates_errors [of "example_cluster version_1_28"
      "[gadget_gvk, pod_gvk, configmap_gvk, node_gvk]" no_filters]
  obtain st where "FetchK8sObjects (example_cluster version_1_28)
       [gadget_gvk, pod_gvk, configmap_gvk, node_gvk] (Some no_filters) = Inr st"
     and "objs st = concat (map (kind_objects (example_cluster version_1_28) no_filters)
               [gadget_gvk, pod_gvk, configmap_gvk, node_gvk])"
    by blast
  with run show ?thesis by simp
qed

section \<open>The kind filter\<close>

text \<open>
  Claim C3. A kind reference whose kind name is in the kind deny-list contributes
  nothing: the fetch returns what it returns when every such reference is removed
  from its input (the same objects, the same list calls, the same diagnostics), and
  the objects of the result are those contributed by the references that are not
  denied.
\<close>

theorem denied_kinds_contribute_nothing:
  "\<exists>st. FetchK8sObjects c gvks (Some conf) = Inr st
        \<and> FetchK8sObjects c (filter (\<lambda>gvk. \<not> Contains (gvk_Kind gvk) (IgnoreKinds conf)) gvks)
            (Some conf) = Inr st
        \<and> objs st =
            concat (map (kind_objects c conf)
                        (filter (\<lambda>gvk. \<not> Contains (gvk_Kind gvk) (IgnoreKinds conf)) gvks))"
proof -
  let ?P = "\<lambda>gvk. \<not> Contains (gvk_Kind gvk) (IgnoreKinds conf)"
  have ex: "\<And>gvk. gvk \<in> set gvks \<Longrightarrow> \<not> ?P gvk \<Longrightarrow> kind_excluded conf (gvk_Kind gvk)"
    by (simp add: kind_excluded_def)
  obtain st where st: "FetchK8sObjects c gvks (Some conf) = Inr st"
    by (simp add: FetchK8sObjects_Some)
  have same: "FetchK8sObjects c (filter ?P gvks) (Some conf) = Inr st"
    using FetchK8sObjects_filter [of gvks ?P conf c] ex st by simp
  have "objs st = concat (map (kind_objects c conf) (filter ?P gvks))"
    using FetchK8sObjects_objs [OF same] .
  with st same show ?thesis by blast
qed

theorem denied_kinds_contribute_nothing_witness:
  "FetchK8sObjects (example_cluster version_1_28) [pod_gvk, secret_gvk] (Some deny_secret) =
     Inr \<lparr>objs = [pod_prod, pod_staging], list_calls = [pods_gvr], printed = []\<rparr>
   \<and> FetchK8sObjects (example_cluster version_1_28) [pod_gvk] (Some deny_secret) =
     Inr \<lparr>objs = [pod_prod, pod_staging], list_calls = [pods_gvr], printed = []\<rparr>
   \<and> listed_items (example_cluster version_1_28) secrets_gvr = [secret_prod]"
proof -
  let ?st = "\<lparr>objs = [pod_prod, pod_staging], list_calls = [pods_gvr], printed = []\<rparr>"
  have run: "FetchK8sObjects (example_cluster version_1_28) [pod_gvk, secret_gvk] (Some deny_secret) = Inr ?st"
    by (simp add: example_defs run_defs)
  have kept: "filter (\<lambda>gvk. \<not> Contains (gvk_Kind gvk) (IgnoreKinds deny_secret)) [pod_gvk, secret_gvk] = [pod_gvk]"
    by (simp add: example_defs Contains_def)
  have secret: "listed_items (example_cluster version_1_28) secrets_gvr = [secret_prod]"
    by (simp add: listed_items_def example_defs)
  from denied_kinds_contribute_nothing [of "example_cluster version_1_28" "[pod_gvk, secret_gvk]" deny_secret]
  have "FetchK8sObjects (example_cluster version_1_28) [pod_gvk] (Some deny_secret) = Inr ?st"
    unfolding kept run by simp
  with run secret show ?thesis by simp
qed

text \<open>
  Claim C5. When the kind allow-list is not empty, only the kind references whose
  kind name is in the allow-list contribute: the fetch returns what it returns on
  those references alone, and the objects of the result are the ones they contribute.
  An empty kind allow-list restricts nothing: the fetch returns what it returns under
  the allow-list that names every kind of its input.
\<close>

theorem only_selected_kinds_contribute:
  "(SelectKinds conf \<noteq> [] \<longrightarrow>
      (\<exists>st. FetchK8sObjects c gvks (Some conf) = Inr st
         \<and> FetchK8sObjects c (filter (\<lambda>gvk. Contains (gvk_Kind gvk) (SelectKinds conf)) gvks)
             (Some conf) = Inr st
         \<and> objs st =
             concat (map (kind_objects c conf)
                         (filter (\<lambda>gvk. Contains (gvk_Kind gvk) (SelectKinds conf)) gvks))))
   \<and> (SelectKinds conf = [] \<longrightarrow>
        FetchK8sObjects c gvks (Some conf) =
          FetchK8sObjects c gvks (Some (conf\<lparr>SelectKinds := map gvk_Kind gvks\<rparr>)))"
proof (intro conjI impI)
  assume nonempty: "SelectKinds conf \<noteq> []"
  let ?P = "\<lambda>gvk. Contains (gvk_Kind gvk) (SelectKinds conf)"
  have ex: "\<And>gvk. gvk \<in> set gvks \<Longrightarrow> \<not> ?P gvk \<Longrightarrow> kind_excluded conf (gvk_Kind gvk)"
    using nonempty by (simp add: kind_excluded_def)
  obtain st where st: "FetchK8sObjects c gvks (Some conf) = Inr st"
    by (simp add: FetchK8sObjects_Some)
  have same: "FetchK8sObjects c (filter ?P gvks) (Some conf) = Inr st"
    using FetchK8sObjects_filter [of gvks ?P conf c] ex st by simp
  have "objs st = concat (map (kind_objects c conf) (filter ?P gvks))"
    using FetchK8sObjects_objs [OF same] .
  with st same show "\<exists>st. FetchK8sObjects c gvks (Some conf) = Inr st
         \<and> FetchK8sObjects c (filter ?P gvks) (Some conf) = Inr st
         \<and> objs st = concat (map (kind_objects c conf) (filter ?P gvks))"
    by blast
next
  assume empty: "SelectKinds conf = []"
  let ?conf' = "conf\<lparr>SelectKinds := map gvk_Kind gvks\<rparr>"
  have "\<And>gvk. gvk \<in> set gvks \<Longrightarrow> kind_step (disco c) conf gvk = kind_step (disco c) ?conf' gvk"
    using empty by (simp add: kind_step_def Contains_def)
  then have "resolve_kinds (disco c) conf gvks [] = resolve_kinds (disco c) ?conf' gvks []"
    by (rule resolve_kinds_cong)
  then show "FetchK8sObjects c gvks (Some conf) = FetchK8sObjects c gvks (Some ?conf')"
    by (simp add: FetchK8sObjects_Some list_resources_SelectKinds)
qed

theorem only_selected_kinds_contribute_witness:
  "SelectKinds select_pod \<noteq> []
   \<and> FetchK8sObjects (example_cluster version_1_28) [pod_gvk, secret_gvk, node_gvk] (Some select_pod) =
       Inr \<lparr>objs = [pod_prod, pod_staging], list_calls = [pods_gvr], printed = []\<rparr>
   \<and> FetchK8sObjects (example_cluster version_1_28) [pod_gvk] (Some select_pod) =
       Inr \<lparr>objs = [pod_prod, pod_staging], list_calls = [pods_gvr], printed = []\<rparr>
   \<and> SelectKinds no_filters = []
   \<and> FetchK8sObjects (example_cluster version_1_28) [pod_gvk, node_gvk] (Some no_filters) =
       FetchK8sObjects (example_cluster version_1_28) [pod_gvk, node_gvk]
         (Some (no_filters\<lparr>SelectKinds := [''Pod'', ''Node'']\<rparr>))"
proof -
  let ?st = "\<lparr>objs = [pod_prod, pod_staging], list_calls = [pods_gvr], printed = []\<rparr>"
  have nonempty: "SelectKinds select_pod \<noteq> []"
    by (simp add: select_pod_def)
  have run: "FetchK8sObjects (example_cluster version_1_28) [pod_gvk, secret_gvk, node_gvk]
      (Some select_pod) = Inr ?st"
    by (simp add: example_defs run_defs)
  have kept: "filter (\<lambda>gvk. Contains (gvk_Kind gvk) (SelectKinds select_pod))
      [pod_gvk, secret_gvk, node_gvk] = [pod_gvk]"
    by (simp add: example_defs Contains_def)
  have one: "FetchK8sObjects (example_cluster version_1_28) [pod_gvk] (Some select_pod) = Inr ?st"
    using only_selected_kinds_contribute [of select_pod "example_cluster version_1_28"
        "[pod_gvk, secret_gvk, node_gvk]"] nonempty
    unfolding kept run by simp
  have empty: "SelectKinds no_filters = []"
    by (simp add: no_filters_def)
  have names: "map gvk_Kind [pod_gvk, node_gvk] = [''Pod'', ''Node'']"
    by (simp add: pod_gvk_def node_gvk_def)
  have two: "FetchK8sObjects (example_cluster version_1_28) [pod_gvk, node_gvk] (Some no_filters) =
       FetchK8sObjects (example_cluster version_1_28) [pod_gvk, node_gvk]
         (Some (no_filters\<lparr>SelectKinds := [''Pod'', ''Node'']\<rparr>))"
    using only_selected_kinds_contribute [of no_filters "example_cluster version_1_28"
        "[pod_gvk, node_gvk]"] empty
    unfolding names by simp
  from nonempty run one empty two show ?thesis by blast
qed

section \<open>Deny-list before allow-list\<close>

text \<open>
  Claim C10. In both filters the deny-list test comes first. A kind reference leaves
  the first loop at the deny-list test exactly when its kind name is in the kind
  deny-list, whatever the allow-list holds, and at the allow-list test exactly when
  the name is not denied and a non-empty allow-list lacks it. An object leaves the
  inner loop at the deny-list test exactly when its effective namespace is in the
  namespace deny-list, at the allow-list test exactly when the namespace is not denied
  and a non-empty allow-list lacks it, and is appended otherwise. So a name in both
  lists is excluded: a fetch returns what it returns without the kind references
  that are in both lists, no object of a result has a namespace that is in both
  lists, a listed object with a denied namespace is never in the result, and a
  listed object whose namespace is allowed and not denied always is.
\<close>

theorem deny_list_wins:
  "(kind_step mapper conf gvk = KindIgnored \<longleftrightarrow> Contains (gvk_Kind gvk) (IgnoreKinds conf))
   \<and> (kind_step mapper conf gvk = KindNotSelected \<longleftrightarrow>
        \<not> Contains (gvk_Kind gvk) (IgnoreKinds conf)
        \<and> SelectKinds conf \<noteq> [] \<and> \<not> Contains (gvk_Kind gvk) (SelectKinds conf))
   \<and> (object_step conf obj = NamespaceIgnored \<longleftrightarrow>
        Contains (effective_namespace obj) (IgnoreNamespaces conf))
   \<and> (object_step conf obj = NamespaceNotSelected \<longleftrightarrow>
        \<not> Contains (effective_namespace obj) (IgnoreNamespaces conf)
        \<and> SelectNamespaces conf \<noteq> []
        \<and> \<not> Contains (effective_namespace obj) (SelectNamespaces conf))
   \<and> (object_step conf obj = ObjectAppended \<longleftrightarrow>
        \<not> Contains (effective_namespace obj) (IgnoreNamespaces conf)
        \<and> (SelectNamespaces conf = [] \<or> Contains (effective_namespace obj) (SelectNamespaces conf)))
   \<and> (\<forall>st. FetchK8sObjects c gvks (Some conf) = Inr st \<longrightarrow>
        FetchK8sObjects c
          (filter (\<lambda>gvk. \<not> (Contains (gvk_Kind gvk) (IgnoreKinds conf)
                            \<and> Contains (gvk_Kind gvk) (SelectKinds conf))) gvks)
          (Some conf) = Inr st
        \<and> (\<forall>obj \<in> set (objs st).
              \<not> (Contains (effective_namespace obj) (IgnoreNamespaces conf)
                 \<and> Contains (effective_namespace obj) (SelectNamespaces conf)))
        \<and> (\<forall>r \<in> set (list_calls st). \<forall>obj \<in> set (listed_items c r).
              Contains (effective_namespace obj) (IgnoreNamespaces conf) \<longrightarrow> obj \<notin> set (objs st))
        \<and> (\<forall>r \<in> set (list_calls st). \<forall>obj \<in> set (listed_items c r).
              \<not> Contains (effective_namespace obj) (IgnoreNamespaces conf)
              \<and> Contains (effective_namespace obj) (SelectNamespaces conf)
                \<longrightarrow> obj \<in> set (objs st)))"
proof -
  have k1: "kind_step mapper conf gvk = KindIgnored \<longleftrightarrow> Contains (gvk_Kind gvk) (IgnoreKinds conf)"
    by (simp add: kind_step_def split: sum.splits)
  have k2: "kind_step mapper conf gvk = KindNotSelected \<longleftrightarrow>
        \<not> Contains (gvk_Kind gvk) (IgnoreKinds conf)
        \<and> SelectKinds conf \<noteq> [] \<and> \<not> Contains (gvk_Kind gvk) (SelectKinds conf)"
    by (simp add: kind_step_def split: sum.splits)
  have n1: "object_step conf obj = NamespaceIgnored \<longleftrightarrow>
        Contains (effective_namespace obj) (IgnoreNamespaces conf)"
    by (simp add: object_step_def effective_namespace_def Let_def)
  have n2: "object_step conf obj = NamespaceNotSelected \<longleftrightarrow>
        \<not> Contains (effective_namespace obj) (IgnoreNamespaces conf)
        \<and> SelectNamespaces conf \<noteq> []
        \<and> \<not> Contains (effective_namespace obj) (SelectNamespaces conf)"
    by (simp add: object_step_def effective_namespace_def Let_def)
  have n3: "object_step conf obj = ObjectAppended \<longleftrightarrow>
        \<not> Contains (effective_namespace obj) (IgnoreNamespaces conf)
        \<and> (SelectNamespaces conf = [] \<or> Contains (effective_namespace obj) (SelectNamespaces conf))"
    by (auto simp: object_step_def effective_namespace_def Let_def)
  have f: "FetchK8sObjects c
          (filter (\<lambda>gvk. \<not> (Contains (gvk_Kind gvk) (IgnoreKinds conf)
                            \<and> Contains (gvk_Kind gvk) (SelectKinds conf))) gvks)
          (Some conf) = Inr st
        \<and> (\<forall>obj \<in> set (objs st).
              \<not> (Contains (effective_namespace obj) (IgnoreNamespaces conf)
                 \<and> Contains (effective_namespace obj) (SelectNamespaces conf)))
        \<and> (\<forall>r \<in> set (list_calls st). \<forall>obj \<in> set (listed_items c r).
              Contains (effective_namespace obj) (IgnoreNamespaces conf) \<longrightarrow> obj \<notin> set (objs st))
        \<and> (\<forall>r \<in> set (list_calls st). \<forall>obj \<in> set (listed_items c r).
              \<not> Contains (effective_namespace obj) (IgnoreNamespaces conf)
              \<and> Contains (effective_namespace obj) (SelectNamespaces conf)
                \<longrightarrow> obj \<in> set (objs st))"
    if st: "FetchK8sObjects c gvks (Some conf) = Inr st" for st
  proof -
    let ?P = "\<lambda>gvk. \<not> (Contains (gvk_Kind gvk) (IgnoreKinds conf)
                            \<and> Contains (gvk_Kind gvk) (SelectKinds conf))"
    have "\<And>gvk. gvk \<in> set gvks \<Longrightarrow> \<not> ?P gvk \<Longrightarrow> kind_excluded conf (gvk_Kind gvk)"
      by (simp add: kind_excluded_def)
    then have a: "FetchK8sObjects c (filter ?P gvks) (Some conf) = Inr st"
      using FetchK8sObjects_filter [of gvks ?P conf c] st by simp
    have eq: "set (objs st) =
        (\<Union>r \<in> set (list_calls st).
           {obj \<in> set (listed_items c r). \<not> namespace_excluded conf (effective_namespace obj)})"
      by (simp add: FetchK8sObjects_objs_calls [OF st])
    have b: "\<forall>obj \<in> set (objs st).
              \<not> (Contains (effective_namespace obj) (IgnoreNamespaces conf)
                 \<and> Contains (effective_namespace obj) (SelectNamespaces conf))"
      unfolding eq by (auto simp: namespace_excluded_def)
    have c: "\<forall>r \<in> set (list_calls st). \<forall>obj \<in> set (listed_items c r).
              Contains (effective_namespace obj) (IgnoreNamespaces conf) \<longrightarrow> obj \<notin> set (objs st)"
      unfolding eq by (auto simp: namespace_excluded_def)
    have d: "\<forall>r \<in> set (list_calls st). \<forall>obj \<in> set (listed_items c r).
              \<not> Contains (effective_namespace obj) (IgnoreNamespaces conf)
              \<and> Contains (effective_namespace obj) (SelectNamespaces conf)
                \<longrightarrow> obj \<in> set (objs st)"
      unfolding eq by (auto simp: namespace_excluded_def)
    from a b c d show ?thesis by blast
  qed
  from k1 k2 n1 n2 n3 f show ?thesis by blast
qed

theorem deny_list_wins_witness:
  "Contains (gvk_Kind node_gvk) (IgnoreKinds both_lists)
   \<and> \<not> Contains (gvk_Kind node_gvk) (SelectKinds both_lists)
   \<and> kind_step (disco (example_cluster version_1_28)) both_lists node_gvk = KindIgnored
   \<and> Contains (effective_namespace node_one) (IgnoreNamespaces both_lists)
   \<and> \<not> Contains (effective_namespace node_one) (SelectNamespaces both_lists)
   \<and> object_step both_lists node_one = NamespaceIgnored
   \<and> FetchK8sObjects (example_cluster version_1_28) [pod_gvk, secret_gvk, node_gvk] (Some both_lists) =
       Inr \<lparr>objs = [pod_staging], list_calls = [pods_gvr], printed = []\<rparr>
   \<and> FetchK8sObjects (example_cluster version_1_28) [pod_gvk, node_gvk] (Some both_lists) =
       Inr \<lparr>objs = [pod_staging], list_calls = [pods_gvr], printed = []\<rparr>
   \<and> listed_items (example_cluster version_1_28) pods_gvr = [pod_prod, pod_staging]
   \<and> Contains (effective_namespace pod_prod) (IgnoreNamespaces both_lists)
   \<and> Contains (effective_namespace pod_prod) (SelectNamespaces both_lists)
   \<and> pod_prod \<notin> set [pod_staging]
   \<and> pod_staging \<in> set [pod_staging]"
proof -
  let ?st = "\<lparr>objs = [pod_staging], list_calls = [pods_gvr], printed = []\<rparr>"
  let ?c = "example_cluster version_1_28"
  have k1: "Contains (gvk_Kind node_gvk) (IgnoreKinds both_lists)"
    and k2: "\<not> Contains (gvk_Kind node_gvk) (SelectKinds both_lists)"
    by (simp_all add: example_defs Contains_def)
  have n1: "Contains (effective_namespace node_one) (IgnoreNamespaces both_lists)"
    and n2: "\<not> Contains (effective_namespace node_one) (SelectNamespaces both_lists)"
    by (simp_all add: example_defs Contains_def effective_namespace_def GetNamespace_def)
  have p1: "Contains (effective_namespace pod_prod) (IgnoreNamespaces both_lists)"
    and p2: "Contains (effective_namespace pod_prod) (SelectNamespaces both_lists)"
    and s1: "\<not> Contains (effective_namespace pod_staging) (IgnoreNamespaces both_lists)"
    and s2: "Contains (effective_namespace pod_staging) (SelectNamespaces both_lists)"
    by (simp_all add: example_defs Contains_def effective_namespace_def GetNamespace_def)
  have run: "FetchK8sObjects ?c [pod_gvk, secret_gvk, node_gvk] (Some both_lists) = Inr ?st"
    by (simp add: example_defs run_defs)
  have kept: "filter (\<lambda>gvk. \<not> (Contains (gvk_Kind gvk) (IgnoreKinds both_lists)
                            \<and> Contains (gvk_Kind gvk) (SelectKinds both_lists)))
      [pod_gvk, secret_gvk, node_gvk] = [pod_gvk, node_gvk]"
    by (simp add: example_defs Contains_def)
  have listed: "listed_items ?c pods_gvr = [pod_prod, pod_staging]"
    by (simp add: listed_items_def example_defs)
  have called: "pods_gvr \<in> set (list_calls ?st)"
    by simp
  note inst = deny_list_wins [where gvk = node_gvk and conf = both_lists and obj = node_one
      and mapper = "disco ?c" and c = ?c and gvks = "[pod_gvk, secret_gvk, node_gvk]"]
  from inst k1 have a: "kind_step (disco ?c) both_lists node_gvk = KindIgnored"
    by blast
  from inst n1 have b: "object_step both_lists node_one = NamespaceIgnored"
    by blast
  from inst run have c: "FetchK8sObjects ?c [pod_gvk, node_gvk] (Some both_lists) = Inr ?st"
    unfolding kept by blast
  from inst run have "\<forall>r \<in> set (list_calls ?st). \<forall>obj \<in> set (listed_items ?c r).
      Contains (effective_namespace obj) (IgnoreNamespaces both_lists) \<longrightarrow> obj \<notin> set (objs ?st)"
    by blast
  with called listed p1 have d: "pod_prod \<notin> set [pod_staging]"
    by simp
  from inst run have "\<forall>r \<in> set (list_calls ?st). \<forall>obj \<in> set (listed_items ?c r).
      \<not> Contains (effective_namespace obj) (IgnoreNamespaces both_lists)
      \<and> Contains (effective_namespace obj) (SelectNamespaces both_lists)
        \<longrightarrow> obj \<in> set (objs ?st)"
    by blast
  with called listed s1 s2 have e: "pod_staging \<in> set [pod_staging]"
    by simp
  from k1 k2 a n1 n2 b run c listed p1 p2 d e show ?thesis by blast
qed

section \<open>Resources that are never listed\<close>

text \<open>
  Claim C4 as stated fails: the test on \<open>lists\<close> is sensitive to case. The resource
  \<open>TodoLists\<close> contains \<open>lists\<close> when case is ignored, yet the fetch issues the list
  call for it and returns its object.
\<close>

theorem listed_despite_capitals_counterexample:
  "contains_fold (gvr_Resource todolists_gvr) ''lists''
   \<and> FetchK8sObjects (example_cluster version_1_28) [todolist_gvk] (Some no_filters) =
       Inr \<lparr>objs = [todo_prod], list_calls = [todolists_gvr], printed = []\<rparr>"
  by (simp add: contains_fold_def example_defs run_defs)

text \<open>
  Claim C4, amended. For a resource whose name contains \<open>lists\<close> or \<open>reviews\<close> as
  written, in lower case, or equals \<open>bindings\<close> when case is ignored, the fetch issues
  no list call, every object of the result comes from a list call for another
  resource, and the outcome does not depend on what a list call for the resource
  would answer.
\<close>

theorem dropped_resources_never_listed:
  assumes "strings_Contains (gvr_Resource resource) ''lists''
           \<or> strings_Contains (gvr_Resource resource) ''reviews''
           \<or> strings_EqualFold (gvr_Resource resource) ''bindings''"
    and "FetchK8sObjects c gvks (Some conf) = Inr st"
  shows "resource \<notin> set (list_calls st)
         \<and> (\<forall>obj \<in> set (objs st).
               \<exists>r \<in> set (list_calls st). r \<noteq> resource \<and> obj \<in> set (listed_items c r))
         \<and> FetchK8sObjects (c\<lparr>clientset := (clientset c)(resource := answer)\<rparr>) gvks (Some conf) = Inr st"
proof -
  from assms(1) have dropped: "resource_dropped resource"
    by (simp add: resource_dropped_def)
  with FetchK8sObjects_calls_not_dropped [OF assms(2)]
  have no_call: "resource \<notin> set (list_calls st)"
    by blast
  have "\<forall>obj \<in> set (objs st). \<exists>r \<in> set (list_calls st). obj \<in> set (listed_items c r)"
    unfolding FetchK8sObjects_objs_calls [OF assms(2)] by auto
  with no_call have origin: "\<forall>obj \<in> set (objs st).
      \<exists>r \<in> set (list_calls st). r \<noteq> resource \<and> obj \<in> set (listed_items c r)"
    by metis
  have "FetchK8sObjects (c\<lparr>clientset := (clientset c)(resource := answer)\<rparr>) gvks (Some conf) = Inr st"
    using assms(2) dropped by (simp add: FetchK8sObjects_Some list_resources_other_client)
  with no_call origin show ?thesis by blast
qed

theorem dropped_resources_never_listed_witness:
  "strings_EqualFold (gvr_Resource bindings_gvr) ''bindings''
   \<and> listed_items (example_cluster version_1_28) bindings_gvr = [binding_prod]
   \<and> FetchK8sObjects (example_cluster version_1_28) [binding_gvk, pod_gvk] (Some no_filters) =
       Inr \<lparr>objs = [pod_prod, pod_staging], list_calls = [pods_gvr], printed = []\<rparr>
   \<and> bindings_gvr \<notin> set [pods_gvr]"
proof -
  let ?st = "\<lparr>objs = [pod_prod, pod_staging], list_calls = [pods_gvr], printed = []\<rparr>"
  have fold: "strings_EqualFold (gvr_Resource bindings_gvr) ''bindings''"
    by (simp add: bindings_gvr_def ascii_lower_def)
  have listed: "listed_items (example_cluster version_1_28) bindings_gvr = [binding_prod]"
    by (simp add: listed_items_def example_defs)
  have run: "FetchK8sObjects (example_cluster version_1_28) [binding_gvk, pod_gvk] (Some no_filters) = Inr ?st"
    by (simp add: example_defs run_defs)
  from fold have pre: "strings_Contains (gvr_Resource bindings_gvr) ''lists''
           \<or> strings_Contains (gvr_Resource bindings_gvr) ''reviews''
           \<or> strings_EqualFold (gvr_Resource bindings_gvr) ''bindings''"
    by blast
  have "bindings_gvr \<notin> set (list_calls ?st)"
    using dropped_resources_never_listed [OF pre run] by blast
  then have "bindings_gvr \<notin> set [pods_gvr]"
    by simp
  with fold listed run show ?thesis by blast
qed

section \<open>The server version\<close>

text \<open>
  Claim C7 as stated fails: \<^verbatim>\<open>strings.Trim\<close> removes the \<open>+\<close> characters at both ends
  of the minor component. For major \<open>1\<close> and minor \<open>+28\<close> the code returns \<open>1.28\<close>,
  where stripping the trailing \<open>+\<close> alone gives \<open>1.+28\<close>.
\<close>

theorem ServerVersion_counterexample:
  "disco_ServerVersion (disco (example_cluster (Inr info_plus_28))) = Inr info_plus_28
   \<and> ServerVersion (example_cluster (Inr info_plus_28)) = Inr ''1.28''
   \<and> version_as_claimed info_plus_28 = ''1.+28''"
  by (simp add: ServerVersion_def example_cluster_def info_plus_28_def version_as_claimed_def
      strip_trailing_plus_def strings_Trim_def Sprintf_s_dot_s_def)

text \<open>
  Claim C7, amended. When the discovery call succeeds, \<^verbatim>\<open>ServerVersion\<close> returns the
  major component, a dot, and the minor component without its leading and trailing
  \<open>+\<close> characters; for a minor component that does not begin with \<open>+\<close> this is the
  minor component without its trailing \<open>+\<close> characters, and major \<open>1\<close> with minor
  \<open>28+\<close> yields \<open>1.28\<close>. When the discovery call fails, its error is returned.
\<close>

theorem ServerVersion_value:
  "(\<forall>info. disco_ServerVersion (disco c) = Inr info \<longrightarrow>
      ServerVersion c =
        Inr (Major info @ ''.'' @ dropWhile (\<lambda>ch. ch = CHR ''+'') (strip_trailing_plus (Minor info)))
      \<and> (take 1 (Minor info) \<noteq> ''+'' \<longrightarrow> ServerVersion c = Inr (version_as_claimed info))
      \<and> (Major info = ''1'' \<and> Minor info = ''28+'' \<longrightarrow> ServerVersion c = Inr ''1.28''))
   \<and> (\<forall>err. disco_ServerVersion (disco c) = Inl err \<longrightarrow> ServerVersion c = Inl err)"
proof (intro conjI allI impI)
  fix info
  assume ok: "disco_ServerVersion (disco c) = Inr info"
  then show val: "ServerVersion c =
      Inr (Major info @ ''.'' @ dropWhile (\<lambda>ch. ch = CHR ''+'') (strip_trailing_plus (Minor info)))"
    by (simp add: ServerVersion_def Sprintf_s_dot_s_def strings_Trim_plus)
  {
    assume "take 1 (Minor info) \<noteq> ''+''"
    then show "ServerVersion c = Inr (version_as_claimed info)"
      using val by (simp add: version_as_claimed_def strip_trailing_plus_hd)
  }
  {
    assume "Major info = ''1'' \<and> Minor info = ''28+''"
    then show "ServerVersion c = Inr ''1.28''"
      using val by (simp add: strip_trailing_plus_def)
  }
next
  fix err
  assume "disco_ServerVersion (disco c) = Inl err"
  then show "ServerVersion c = Inl err"
    by (simp add: ServerVersion_def)
qed

theorem ServerVersion_value_witness:
  "disco_ServerVersion (disco (example_cluster (Inr info_1_28))) = Inr info_1_28
   \<and> Major info_1_28 = ''1'' \<and> Minor info_1_28 = ''28+''
   \<and> ServerVersion (example_cluster (Inr info_1_28)) = Inr ''1.28''
   \<and> disco_ServerVersion (disco (example_cluster (Inl (Error ''connection refused'')))) =
       Inl (Error ''connection refused'')
   \<and> ServerVersion (example_cluster (Inl (Error ''connection refused''))) =
       Inl (Error ''connection refused'')"
proof -
  have ok: "disco_ServerVersion (disco (example_cluster (Inr info_1_28))) = Inr info_1_28"
    by (simp add: example_cluster_def)
  have fields: "Major info_1_28 = ''1'' \<and> Minor info_1_28 = ''28+''"
    by (simp add: info_1_28_def)
  have a: "ServerVersion (example_cluster (Inr info_1_28)) = Inr ''1.28''"
    using ServerVersion_value [of "example_cluster (Inr info_1_28)"] ok fields by blast
  have bad: "disco_ServerVersion (disco (example_cluster (Inl (Error ''connection refused'')))) =
       Inl (Error ''connection refused'')"
    by (simp add: example_cluster_def)
  have b: "ServerVersion (example_cluster (Inl (Error ''connection refused''))) =
       Inl (Error ''connection refused'')"
    using ServerVersion_value [of "example_cluster (Inl (Error ''connection refused''))"] bad by blast
  from ok fields a bad b show ?thesis by blast
qed

section \<open>One strategy per call, and no degraded handle\<close>

text \<open>
  Claim C8. A call of \<^verbatim>\<open>NewClusterFromEnvOrConfig\<close> attempts exactly one strategy,
  the one selected in the order local development flag, injected configuration,
  in-cluster configuration. When the selected strategy fails, the call panics with
  that failure. When the call returns a handle, the strategy succeeded, the handle
  holds its configuration with the warning handler replaced, and both clients were
  built from it: no handle is returned after a failure.
\<close>

theorem one_strategy_or_panic:
  assumes "NewClusterFromEnvOrConfig env flags rc = (res, flags', as)"
  shows "attempted as = [selected_strategy env rc]
         \<and> (\<forall>p. strategy_result env flags rc (selected_strategy env rc) = Inl p \<longrightarrow> res = Inl p)
         \<and> (\<forall>cl. res = Inr cl \<longrightarrow>
               (\<exists>cfg. strategy_result env flags rc (selected_strategy env rc) = Inr cfg
                  \<and> restConfig cl = cfg\<lparr>WarningHandler := NoWarnings\<rparr>
                  \<and> NewDiscoveryClientForConfig env (restConfig cl) = Inr (disco cl)
                  \<and> dynamic_NewForConfig env (restConfig cl) = Inr (clientset cl)))"
proof (intro conjI allI impI)
  show "attempted as = [selected_strategy env rc]"
    using assms by (rule NewClusterFromEnvOrConfig_attempted)
next
  fix p
  assume "strategy_result env flags rc (selected_strategy env rc) = Inl p"
  with NewClusterFromEnvOrConfig_result [OF assms] show "res = Inl p"
    by simp
next
  fix cl
  assume ok: "res = Inr cl"
  with NewClusterFromEnvOrConfig_result [OF assms]
  obtain cfg where cfg: "strategy_result env flags rc (selected_strategy env rc) = Inr cfg"
    and built: "fst (build_clients env cfg) = Inr cl"
    by (auto split: sum.splits)
  from build_clients_Inr [OF built] cfg
  show "\<exists>cfg. strategy_result env flags rc (selected_strategy env rc) = Inr cfg
                  \<and> restConfig cl = cfg\<lparr>WarningHandler := NoWarnings\<rparr>
                  \<and> NewDiscoveryClientForConfig env (restConfig cl) = Inr (disco cl)
                  \<and> dynamic_NewForConfig env (restConfig cl) = Inr (clientset cl)"
    by blast
qed

theorem one_strategy_or_panic_witness:
  "NewClusterFromEnvOrConfig (example_env ''true'') [] (Some injected_config) =
     (Inr \<lparr>resources = [], disco = example_disco,
           restConfig = dev_config\<lparr>WarningHandler := NoWarnings\<rparr>, kubernetesVersion = [],
           clientset = example_client, Name = [], Version = []\<rparr>,
      [''kubeconfig''],
      [Getenv_call ''USE_LOCAL_DEV_MODE'', user_Current_call, flag_String_call ''kubeconfig'',
       BuildConfigFromFlags_call [] ''/home/dev/.kube/config'',
       NewDiscoveryClientForConfig_call (dev_config\<lparr>WarningHandler := NoWarnings\<rparr>),
       dynamic_NewForConfig_call (dev_config\<lparr>WarningHandler := NoWarnings\<rparr>)])
   \<and> selected_strategy (example_env ''true'') (Some injected_config) = LocalDev
   \<and> attempted
        [Getenv_call ''USE_LOCAL_DEV_MODE'', user_Current_call, flag_String_call ''kubeconfig'',
         BuildConfigFromFlags_call [] ''/home/dev/.kube/config'',
         NewDiscoveryClientForConfig_call (dev_config\<lparr>WarningHandler := NoWarnings\<rparr>),
         dynamic_NewForConfig_call (dev_config\<lparr>WarningHandler := NoWarnings\<rparr>)] = [LocalDev]
   \<and> NewClusterFromEnvOrConfig (example_env ''false'') [] None =
       (Inl (PanicError (Error ''not running in a cluster'')), [],
        [Getenv_call ''USE_LOCAL_DEV_MODE'', InClusterConfig_call,
         Println_call ''error in getting rest config via InClusterConfig''])
   \<and> strategy_result (example_env ''false'') [] None (selected_strategy (example_env ''false'') None) =
       Inl (PanicError (Error ''not running in a cluster''))
   \<and> attempted
        [Getenv_call ''USE_LOCAL_DEV_MODE'', InClusterConfig_call,
         Println_call ''error in getting rest config via InClusterConfig''] = [InCluster]"
proof -
  let ?cl = "\<lparr>resources = [], disco = example_disco,
           restConfig = dev_config\<lparr>WarningHandler := NoWarnings\<rparr>, kubernetesVersion = [],
           clientset = example_client, Name = [], Version = []\<rparr>"
  let ?as = "[Getenv_call ''USE_LOCAL_DEV_MODE'', user_Current_call, flag_String_call ''kubeconfig'',
       BuildConfigFromFlags_call [] ''/home/dev/.kube/config'',
       NewDiscoveryClientForConfig_call (dev_config\<lparr>WarningHandler := NoWarnings\<rparr>),
       dynamic_NewForConfig_call (dev_config\<lparr>WarningHandler := NoWarnings\<rparr>)]"
  let ?bs = "[Getenv_call ''USE_LOCAL_DEV_MODE'', InClusterConfig_call,
         Println_call ''error in getting rest config via InClusterConfig'']"
  have run1: "NewClusterFromEnvOrConfig (example_env ''true'') [] (Some injected_config) =
      (Inr ?cl, [''kubeconfig''], ?as)"
    by (simp add: constructor_defs)
  have sel1: "selected_strategy (example_env ''true'') (Some injected_config) = LocalDev"
    by (simp add: selected_strategy_def example_env_def)
  have att1: "attempted ?as = [LocalDev]"
    using one_strategy_or_panic [OF run1] sel1 by simp
  have run2: "NewClusterFromEnvOrConfig (example_env ''false'') [] None =
      (Inl (PanicError (Error ''not running in a cluster'')), [], ?bs)"
    by (simp add: constructor_defs)
  have fail2: "strategy_result (example_env ''false'') [] None
      (selected_strategy (example_env ''false'') None) = Inl (PanicError (Error ''not running in a cluster''))"
    by (simp add: selected_strategy_def example_env_def)
  have sel2: "selected_strategy (example_env ''false'') None = InCluster"
    by (simp add: selected_strategy_def example_env_def)
  have att2: "attempted ?bs = [InCluster]"
    using one_strategy_or_panic [OF run2] sel2 by simp
  from run1 sel1 att1 run2 fail2 att2 show ?thesis by blast
qed

end
